theory Spec2Isabelle
  imports Main
begin

section \<open>Cursor undo: the cursor state history and its controller\<close>

text \<open>
  The development follows the four versions of \<^verbatim>\<open>cursorUndo.ts\<close> in the repository.
  The most complete one (\<^verbatim>\<open>src/unnamed/part_001\<close>) keeps a bounded history of cursor
  states together with a position pointer; the three earlier ones have no redo.

  \<^verbatim>\<open>Selection\<close> is imported from \<^verbatim>\<open>vs/editor/common/core/selection\<close>; it is the type
  parameter \<open>'s\<close> throughout.
\<close>

subsection \<open>JavaScript values and arrays\<close>

text \<open>
  A method typed \<^verbatim>\<open>CursorState | null\<close> returns \<^verbatim>\<open>null\<close>, an object, or (when an
  array is read outside its bounds, which the non-null assertion \<^verbatim>\<open>!\<close> does not check)
  \<^verbatim>\<open>undefined\<close>.
\<close>

datatype 'a nullable = Null | Undefined | Object 'a

datatype js_error = TypeError

text \<open>\<^verbatim>\<open>xs[i]\<close>: the element when \<open>i\<close> is an index of the array, \<^verbatim>\<open>undefined\<close> otherwise.\<close>

definition array_get :: "'a list \<Rightarrow> int \<Rightarrow> 'a nullable" where
  "array_get xs i = (if 0 \<le> i \<and> i < int (length xs) then Object (xs ! nat i) else Undefined)"

text \<open>
  \<^verbatim>\<open>xs.splice(start)\<close> with one argument removes everything from \<open>start\<close> on; the
  function gives what stays in the array. A negative \<open>start\<close> counts from the end, and
  the start is clamped to the array.
\<close>

definition splice_from :: "int \<Rightarrow> 'a list \<Rightarrow> 'a list" where
  "splice_from start xs =
     (let len = int (length xs);
          actualStart = (if start < 0 then max (len + start) 0 else min start len)
      in take (nat actualStart) xs)"

text \<open>\<^verbatim>\<open>xs.push(x)\<close> and \<^verbatim>\<open>xs.shift()\<close> (which leaves an empty array empty).\<close>

definition push :: "'a \<Rightarrow> 'a list \<Rightarrow> 'a list" where
  "push x xs = xs @ [x]"

definition shift :: "'a list \<Rightarrow> 'a list" where
  "shift xs = (case xs of [] \<Rightarrow> [] | _ # rest \<Rightarrow> rest)"

subsection \<open>CursorState\<close>

record 's CursorState =
  selections :: "'s list"

subsection \<open>CursorStateStack (position pointer version, part\_001)\<close>

definition STACK_SIZE_LIMIT :: int where
  "STACK_SIZE_LIMIT = 50"

text \<open>
  \<^verbatim>\<open>_positionInHistory\<close> is a JavaScript number that is only ever set to 0, incremented
  and decremented: an \<open>int\<close>.
\<close>

record 's CursorStateStack =
  cursorStateHistory :: "'s CursorState list"
  positionInHistory :: int

definition reset :: "'s CursorState \<Rightarrow> 's CursorStateStack \<Rightarrow> 's CursorStateStack" where
  "reset currentState st = st\<lparr>cursorStateHistory := [currentState], positionInHistory := 0\<rparr>"

text \<open>The constructor calls \<^verbatim>\<open>reset\<close> on the new object, which sets both fields.\<close>

definition new_CursorStateStack :: "'s CursorState \<Rightarrow> 's CursorStateStack" where
  "new_CursorStateStack initialState =
     reset initialState \<lparr>cursorStateHistory = [], positionInHistory = 0\<rparr>"

definition onStateUpdate :: "'s CursorState \<Rightarrow> 's CursorStateStack \<Rightarrow> 's CursorStateStack" where
  "onStateUpdate newState st =
     (let st1 = st\<lparr>cursorStateHistory :=
                    splice_from (positionInHistory st + 1) (cursorStateHistory st)\<rparr>;
          st2 = st1\<lparr>cursorStateHistory := push newState (cursorStateHistory st1)\<rparr>;
          st3 = st2\<lparr>positionInHistory := positionInHistory st2 + 1\<rparr>
      in if int (length (cursorStateHistory st3)) > STACK_SIZE_LIMIT
         then st3\<lparr>cursorStateHistory := shift (cursorStateHistory st3),
                  positionInHistory := positionInHistory st3 - 1\<rparr>
         else st3)"

definition getCurrentState :: "'s CursorStateStack \<Rightarrow> 's CursorState nullable" where
  "getCurrentState st = array_get (cursorStateHistory st) (positionInHistory st)"

definition undo :: "'s CursorStateStack \<Rightarrow> 's CursorState nullable \<times> 's CursorStateStack" where
  "undo st =
     (if positionInHistory st = 0 then (Null, st)
      else let st' = st\<lparr>positionInHistory := positionInHistory st - 1\<rparr>
           in (getCurrentState st', st'))"

definition redo :: "'s CursorStateStack \<Rightarrow> 's CursorState nullable \<times> 's CursorStateStack" where
  "redo st =
     (if positionInHistory st = int (length (cursorStateHistory st)) - 1 then (Null, st)
      else let st' = st\<lparr>positionInHistory := positionInHistory st + 1\<rparr>
           in (getCurrentState st', st'))"

subsection \<open>The invariant of the history\<close>

text \<open>The position pointer is an index of the history.\<close>

definition position_valid :: "'s CursorStateStack \<Rightarrow> bool" where
  "position_valid st =
     (0 \<le> positionInHistory st \<and> positionInHistory st < int (length (cursorStateHistory st)))"

definition stack_inv :: "'s CursorStateStack \<Rightarrow> bool" where
  "stack_inv st =
     (cursorStateHistory st \<noteq> [] \<and> int (length (cursorStateHistory st)) \<le> STACK_SIZE_LIMIT
      \<and> position_valid st)"

subsection \<open>Sequences of operations\<close>

datatype 's operation = Reset "'s CursorState" | Record "'s CursorState" | Undo | Redo

fun apply_operation :: "'s operation \<Rightarrow> 's CursorStateStack \<Rightarrow> 's CursorStateStack" where
  "apply_operation (Reset s) st = reset s st"
| "apply_operation (Record s) st = onStateUpdate s st"
| "apply_operation Undo st = snd (undo st)"
| "apply_operation Redo st = snd (redo st)"

fun run :: "'s operation list \<Rightarrow> 's CursorStateStack \<Rightarrow> 's CursorStateStack" where
  "run [] st = st"
| "run (operation # rest) st = run rest (apply_operation operation st)"

text \<open>The results of \<open>n\<close> consecutive calls of \<^verbatim>\<open>undo()\<close>, and the stack they leave.\<close>

fun undo_calls :: "nat \<Rightarrow> 's CursorStateStack \<Rightarrow> 's CursorState nullable list \<times> 's CursorStateStack" where
  "undo_calls 0 st = ([], st)"
| "undo_calls (Suc n) st =
     (case undo st of (r, st') \<Rightarrow>
        (case undo_calls n st' of (rs, st'') \<Rightarrow> (r # rs, st'')))"

text \<open>A history whose position pointer is at the last entry, as after a reset or a record.\<close>

definition at_tail :: "'s CursorStateStack \<Rightarrow> bool" where
  "at_tail st = (cursorStateHistory st \<noteq> [] \<and> length (cursorStateHistory st) \<le> 50 \<and>
     positionInHistory st = int (length (cursorStateHistory st)) - 1)"

text \<open>
  The steps of \<^verbatim>\<open>record\<close> as the specification words them: delete the entries after
  the position when the position is not the last index; append the snapshot and move the
  position to the new last index; when more than 50 entries are held, remove the entry
  at index 0 and decrement the position.
\<close>

definition record_spec :: "'s CursorState \<Rightarrow> 's CursorStateStack \<Rightarrow> 's CursorStateStack" where
  "record_spec snapshot st =
     (let last_index = int (length (cursorStateHistory st)) - 1;
          sequence1 = (if positionInHistory st \<noteq> last_index
                       then take (nat (positionInHistory st) + 1) (cursorStateHistory st)
                       else cursorStateHistory st);
          sequence2 = sequence1 @ [snapshot];
          position2 = int (length sequence2) - 1
      in if length sequence2 > 50
         then \<lparr>cursorStateHistory = drop 1 sequence2, positionInHistory = position2 - 1\<rparr>
         else \<lparr>cursorStateHistory = sequence2, positionInHistory = position2\<rparr>)"

subsection \<open>CursorUndoController (part\_001)\<close>

text \<open>
  The controller holds the in-progress flag and the stack. Of the editor it uses, the
  model keeps what \<^verbatim>\<open>getSelections()\<close> reports (\<open>None\<close> for \<^verbatim>\<open>null\<close>).
\<close>

record 's CursorUndoController =
  editor :: "'s list option"
  isChangingState :: bool
  cursorStateStack :: "'s CursorStateStack"

definition readState :: "'s CursorUndoController \<Rightarrow> 's CursorState" where
  "readState c = \<lparr>selections = (case editor c of None \<Rightarrow> [] | Some sels \<Rightarrow> sels)\<rparr>"

definition new_CursorUndoController :: "'s list option \<Rightarrow> 's CursorUndoController" where
  "new_CursorUndoController ed =
     (let c = \<lparr>editor = ed, isChangingState = False,
               cursorStateStack = \<lparr>cursorStateHistory = [], positionInHistory = 0\<rparr>\<rparr>
      in c\<lparr>cursorStateStack := new_CursorStateStack (readState c)\<rparr>)"

definition onDidChangeModel :: "'s CursorUndoController \<Rightarrow> 's CursorUndoController" where
  "onDidChangeModel c =
     (let newState = readState c
      in c\<lparr>cursorStateStack := reset newState (cursorStateStack c)\<rparr>)"

definition onDidChangeModelContent :: "'s CursorUndoController \<Rightarrow> 's CursorUndoController" where
  "onDidChangeModelContent c =
     (let newState = readState c
      in c\<lparr>cursorStateStack := reset newState (cursorStateStack c)\<rparr>)"

definition onDidChangeCursorSelection :: "'s CursorUndoController \<Rightarrow> 's CursorUndoController" where
  "onDidChangeCursorSelection c =
     (if \<not> isChangingState c
      then let newState = readState c
           in c\<lparr>cursorStateStack := onStateUpdate newState (cursorStateStack c)\<rparr>
      else c)"

text \<open>
  Modelled from the spec: \<^verbatim>\<open>ICodeEditor.setSelections\<close> belongs to the editor, which is
  not part of these files. The write replaces the selections of the editing
  surface and synchronously delivers selection-changed notifications to the handler
  registered above; their number is the parameter \<open>notifications\<close>.
\<close>

definition setSelections ::
  "nat \<Rightarrow> 's list \<Rightarrow> 's CursorUndoController \<Rightarrow> 's CursorUndoController" where
  "setSelections notifications sels c =
     (onDidChangeCursorSelection ^^ notifications) (c\<lparr>editor := Some sels\<rparr>)"

text \<open>
  A method of the controller either completes or throws; both leave a controller state.
\<close>

datatype 'c completion = Normal (state_of: 'c) | Throws js_error (state_of: 'c)

text \<open>
  \<^verbatim>\<open>_updateCursorState\<close>. Reading \<^verbatim>\<open>newState.selections\<close> of \<^verbatim>\<open>undefined\<close> throws after
  the flag has been set. The final \<^verbatim>\<open>revealRangeInCenterIfOutsideViewport\<close> scrolls the
  editor and touches no field of the controller.
\<close>

definition updateCursorState ::
  "nat \<Rightarrow> 's CursorState nullable \<Rightarrow> 's CursorUndoController \<Rightarrow> 's CursorUndoController completion" where
  "updateCursorState notifications newState c =
     (case newState of
        Null \<Rightarrow> Normal c
      | Undefined \<Rightarrow> Throws TypeError (c\<lparr>isChangingState := True\<rparr>)
      | Object s \<Rightarrow>
          (let c1 = c\<lparr>isChangingState := True\<rparr>;
               c2 = setSelections notifications (selections s) c1;
               c3 = c2\<lparr>isChangingState := False\<rparr>
           in Normal c3))"

definition cursorUndo ::
  "nat \<Rightarrow> 's CursorUndoController \<Rightarrow> 's CursorUndoController completion" where
  "cursorUndo notifications c =
     (case undo (cursorStateStack c) of (newState, st') \<Rightarrow>
        updateCursorState notifications newState (c\<lparr>cursorStateStack := st'\<rparr>))"

definition cursorRedo ::
  "nat \<Rightarrow> 's CursorUndoController \<Rightarrow> 's CursorUndoController completion" where
  "cursorRedo notifications c =
     (case redo (cursorStateStack c) of (newState, st') \<Rightarrow>
        updateCursorState notifications newState (c\<lparr>cursorStateStack := st'\<rparr>))"

subsection \<open>The earlier versions, which have no redo\<close>

text \<open>
  In the earlier versions every value typed \<^verbatim>\<open>CursorState | null\<close> that the model
  meets is \<^verbatim>\<open>null\<close> or an object: an \<open>option\<close>, with \<open>None\<close> for \<^verbatim>\<open>null\<close>.

  \<^verbatim>\<open>src/unnamed/part_000\<close> and the first text of \<^verbatim>\<open>cursorUndo.ts\<close> keep an undo stack
  and the previous state; their fields, \<^verbatim>\<open>onStateUpdate\<close>, \<^verbatim>\<open>reset\<close> and the
  selection handler are the same, and they differ in \<^verbatim>\<open>undo\<close>, \<^verbatim>\<open>redo\<close> and
  \<^verbatim>\<open>_updateCursorState\<close>. Names ending in \<open>_prev\<close> are shared by the two, \<open>_p0\<close>
  is \<^verbatim>\<open>part_000\<close> and \<open>_cmp\<close> is the first text of \<^verbatim>\<open>cursorUndo.ts\<close>, whose
  \<^verbatim>\<open>undo\<close> and \<^verbatim>\<open>redo\<close> take the current state.
\<close>

record 's CursorStateStack_prev =
  undoStack :: "'s CursorState list"
  prevState :: "'s CursorState option"

definition new_CursorStateStack_prev :: "'s CursorState option \<Rightarrow> 's CursorStateStack_prev" where
  "new_CursorStateStack_prev initialState = \<lparr>undoStack = [], prevState = initialState\<rparr>"

definition onStateUpdate_prev ::
  "'s CursorState option \<Rightarrow> 's CursorStateStack_prev \<Rightarrow> 's CursorStateStack_prev" where
  "onStateUpdate_prev newState st =
     (let st1 = (case prevState st of
                   Some p \<Rightarrow>
                     (let st' = st\<lparr>undoStack := push p (undoStack st)\<rparr>
                      in if int (length (undoStack st')) > STACK_SIZE_LIMIT
                         then st'\<lparr>undoStack := shift (undoStack st')\<rparr>
                         else st')
                 | None \<Rightarrow> st)
      in st1\<lparr>prevState := newState\<rparr>)"

definition reset_prev :: "'s CursorStateStack_prev \<Rightarrow> 's CursorStateStack_prev" where
  "reset_prev st = st\<lparr>undoStack := [], prevState := None\<rparr>"

definition redo_p0 ::
  "'s CursorStateStack_prev \<Rightarrow> 's CursorState option \<times> 's CursorStateStack_prev" where
  "redo_p0 st = (None, st)"

definition redo_cmp ::
  "'s CursorState \<Rightarrow> 's CursorStateStack_prev \<Rightarrow> 's CursorState option \<times> 's CursorStateStack_prev" where
  "redo_cmp currState st = (None, st)"

text \<open>The controller of these two versions; \<open>editor_prev\<close> is \<open>None\<close> when the editor has no model.\<close>

record 's CursorUndoController_prev =
  editor_prev :: "'s list option"
  isChangingState_prev :: bool
  cursorStateStack_prev :: "'s CursorStateStack_prev"

definition readState_prev :: "'s CursorUndoController_prev \<Rightarrow> 's CursorState option" where
  "readState_prev c =
     (case editor_prev c of None \<Rightarrow> None | Some sels \<Rightarrow> Some \<lparr>selections = sels\<rparr>)"

definition onDidChangeCursorSelection_prev ::
  "'s CursorUndoController_prev \<Rightarrow> 's CursorUndoController_prev" where
  "onDidChangeCursorSelection_prev c =
     (if \<not> isChangingState_prev c
      then c\<lparr>cursorStateStack_prev := onStateUpdate_prev (readState_prev c) (cursorStateStack_prev c)\<rparr>
      else c)"

text \<open>Modelled from the spec: the editor's \<^verbatim>\<open>setSelections\<close>, as for the last version.\<close>

definition setSelections_prev ::
  "nat \<Rightarrow> 's list \<Rightarrow> 's CursorUndoController_prev \<Rightarrow> 's CursorUndoController_prev" where
  "setSelections_prev notifications sels c =
     (onDidChangeCursorSelection_prev ^^ notifications) (c\<lparr>editor_prev := Some sels\<rparr>)"

definition updateCursorState_p0 ::
  "nat \<Rightarrow> 's CursorState option \<Rightarrow> 's CursorUndoController_prev \<Rightarrow> 's CursorUndoController_prev" where
  "updateCursorState_p0 notifications newState c =
     (case newState of
        None \<Rightarrow> c
      | Some s \<Rightarrow>
          (let c1 = c\<lparr>isChangingState_prev := True\<rparr>;
               c2 = setSelections_prev notifications (selections s) c1
           in c2\<lparr>isChangingState_prev := False\<rparr>))"

definition cursorRedo_p0 ::
  "nat \<Rightarrow> 's CursorUndoController_prev \<Rightarrow> 's CursorUndoController_prev" where
  "cursorRedo_p0 notifications c =
     (case redo_p0 (cursorStateStack_prev c) of (newState, st') \<Rightarrow>
        updateCursorState_p0 notifications newState (c\<lparr>cursorStateStack_prev := st'\<rparr>))"

definition updateCursorState_cmp ::
  "nat \<Rightarrow> ('s CursorState \<Rightarrow> 's CursorStateStack_prev \<Rightarrow> 's CursorState option \<times> 's CursorStateStack_prev)
     \<Rightarrow> 's CursorUndoController_prev \<Rightarrow> 's CursorUndoController_prev" where
  "updateCursorState_cmp notifications stateUpdateFunc c =
     (case readState_prev c of
        None \<Rightarrow> c
      | Some currState \<Rightarrow>
          (case stateUpdateFunc currState (cursorStateStack_prev c) of (newState, st') \<Rightarrow>
             (let c0 = c\<lparr>cursorStateStack_prev := st'\<rparr>
              in case newState of
                   None \<Rightarrow> c0
                 | Some s \<Rightarrow>
                     (let c1 = c0\<lparr>isChangingState_prev := True\<rparr>;
                          c2 = setSelections_prev notifications (selections s) c1
                      in c2\<lparr>isChangingState_prev := False\<rparr>))))"

definition cursorRedo_cmp ::
  "nat \<Rightarrow> 's CursorUndoController_prev \<Rightarrow> 's CursorUndoController_prev" where
  "cursorRedo_cmp notifications c = updateCursorState_cmp notifications redo_cmp c"

text \<open>
  The second text of \<^verbatim>\<open>cursorUndo.ts\<close> keeps the history array without a position
  pointer (names ending in \<open>_list\<close>).
\<close>

record 's CursorStateStack_list =
  cursorStateHistory_list :: "'s CursorState list"

definition reset_list :: "'s CursorState \<Rightarrow> 's CursorStateStack_list \<Rightarrow> 's CursorStateStack_list" where
  "reset_list currentState st = st\<lparr>cursorStateHistory_list := [currentState]\<rparr>"

definition onStateUpdate_list ::
  "'s CursorState \<Rightarrow> 's CursorStateStack_list \<Rightarrow> 's CursorStateStack_list" where
  "onStateUpdate_list newState st =
     (let st1 = st\<lparr>cursorStateHistory_list := push newState (cursorStateHistory_list st)\<rparr>
      in if int (length (cursorStateHistory_list st1)) > STACK_SIZE_LIMIT
         then st1\<lparr>cursorStateHistory_list := shift (cursorStateHistory_list st1)\<rparr>
         else st1)"

definition redo_list ::
  "'s CursorStateStack_list \<Rightarrow> 's CursorState option \<times> 's CursorStateStack_list" where
  "redo_list st = (None, st)"

record 's CursorUndoController_list =
  editor_list :: "'s list option"
  isChangingState_list :: bool
  cursorStateStack_list :: "'s CursorStateStack_list"

definition readState_list :: "'s CursorUndoController_list \<Rightarrow> 's CursorState" where
  "readState_list c = \<lparr>selections = (case editor_list c of None \<Rightarrow> [] | Some sels \<Rightarrow> sels)\<rparr>"

definition onDidChangeCursorSelection_list ::
  "'s CursorUndoController_list \<Rightarrow> 's CursorUndoController_list" where
  "onDidChangeCursorSelection_list c =
     (if \<not> isChangingState_list c
      then let newState = readState_list c
           in c\<lparr>cursorStateStack_list := onStateUpdate_list newState (cursorStateStack_list c)\<rparr>
      else c)"

text \<open>Modelled from the spec: the editor's \<^verbatim>\<open>setSelections\<close>, as for the last version.\<close>

definition setSelections_list ::
  "nat \<Rightarrow> 's list \<Rightarrow> 's CursorUndoController_list \<Rightarrow> 's CursorUndoController_list" where
  "setSelections_list notifications sels c =
     (onDidChangeCursorSelection_list ^^ notifications) (c\<lparr>editor_list := Some sels\<rparr>)"

definition updateCursorState_list ::
  "nat \<Rightarrow> 's CursorState option \<Rightarrow> 's CursorUndoController_list \<Rightarrow> 's CursorUndoController_list" where
  "updateCursorState_list notifications newState c =
     (case newState of
        None \<Rightarrow> c
      | Some s \<Rightarrow>
          (let c1 = c\<lparr>isChangingState_list := True\<rparr>;
               c2 = setSelections_list notifications (selections s) c1
           in c2\<lparr>isChangingState_list := False\<rparr>))"

definition cursorRedo_list ::
  "nat \<Rightarrow> 's CursorUndoController_list \<Rightarrow> 's CursorUndoController_list" where
  "cursorRedo_list notifications c =
     (case redo_list (cursorStateStack_list c) of (newState, st') \<Rightarrow>
        updateCursorState_list notifications newState (c\<lparr>cursorStateStack_list := st'\<rparr>))"

section \<open>Properties of the position pointer version\<close>

subsection \<open>Arrays\<close>

lemma array_get_in_range:
  "0 \<le> i \<Longrightarrow> i < int (length xs) \<Longrightarrow> array_get xs i = Object (xs ! nat i)"
  by (simp add: array_get_def)

lemma splice_from_valid:
  "0 \<le> p \<Longrightarrow> p < int (length xs) \<Longrightarrow> splice_from (p + 1) xs = take (nat p + 1) xs"
  by (simp add: splice_from_def Let_def nat_add_distrib)

lemma shift_drop: "shift xs = drop 1 xs"
  by (cases xs) (simp_all add: shift_def)

lemma splice_from_length: "splice_from (int (length xs)) xs = xs"
  by (simp add: splice_from_def)

subsection \<open>The invariant is kept\<close>

lemma stack_inv_reset: "stack_inv (reset s st)"
  by (simp add: stack_inv_def position_valid_def reset_def STACK_SIZE_LIMIT_def)

lemma onStateUpdate_valid:
  assumes "position_valid st"
  shows "cursorStateHistory (onStateUpdate s st) =
           (if nat (positionInHistory st) + 1 < 50
            then take (nat (positionInHistory st) + 1) (cursorStateHistory st) @ [s]
            else drop 1 (take (nat (positionInHistory st) + 1) (cursorStateHistory st) @ [s]))"
    and "positionInHistory (onStateUpdate s st) =
           int (length (cursorStateHistory (onStateUpdate s st))) - 1"
  using assms
  by (auto simp: onStateUpdate_def position_valid_def Let_def splice_from_valid
      shift_drop push_def STACK_SIZE_LIMIT_def min_def)

lemma stack_inv_onStateUpdate: "stack_inv st \<Longrightarrow> stack_inv (onStateUpdate s st)"
  by (auto simp: stack_inv_def onStateUpdate_def position_valid_def Let_def splice_from_valid
      shift_drop push_def STACK_SIZE_LIMIT_def min_def)

lemma stack_inv_undo: "stack_inv st \<Longrightarrow> stack_inv (snd (undo st))"
  by (auto simp: stack_inv_def undo_def position_valid_def Let_def)

lemma stack_inv_redo: "stack_inv st \<Longrightarrow> stack_inv (snd (redo st))"
  by (auto simp: stack_inv_def redo_def position_valid_def Let_def)

lemma stack_inv_apply_operation: "stack_inv st \<Longrightarrow> stack_inv (apply_operation operation st)"
  by (cases operation)
     (simp_all add: stack_inv_reset stack_inv_onStateUpdate stack_inv_undo stack_inv_redo)

lemma stack_inv_run: "stack_inv st \<Longrightarrow> stack_inv (run ops st)"
  by (induction ops arbitrary: st) (simp_all add: stack_inv_apply_operation)

lemma redo_after_record:
  "position_valid st \<Longrightarrow> redo (onStateUpdate s st) = (Null, onStateUpdate s st)"
  by (simp add: redo_def onStateUpdate_valid(2))

lemma undo_Null_iff: "fst (undo st) = Null \<longleftrightarrow> positionInHistory st = 0"
  by (simp add: undo_def getCurrentState_def array_get_def Let_def)

lemma redo_Null_iff:
  "fst (redo st) = Null \<longleftrightarrow> positionInHistory st = int (length (cursorStateHistory st)) - 1"
  by (simp add: redo_def getCurrentState_def array_get_def Let_def)

lemma undo_defined: "position_valid st \<Longrightarrow> fst (undo st) \<noteq> Undefined"
  by (simp add: undo_def getCurrentState_def array_get_def Let_def position_valid_def)

lemma redo_defined: "position_valid st \<Longrightarrow> fst (redo st) \<noteq> Undefined"
  by (simp add: redo_def getCurrentState_def array_get_def Let_def position_valid_def)

subsection \<open>Recording at the tail, and undoing to the start\<close>

lemma onStateUpdate_at_tail:
  assumes "at_tail st"
  shows "cursorStateHistory (onStateUpdate s st) =
           drop (length (cursorStateHistory st) + 1 - 50) (cursorStateHistory st @ [s])"
    and "at_tail (onStateUpdate s st)"
proof -
  let ?h = "cursorStateHistory st"
  from assms have sp: "splice_from (positionInHistory st + 1) ?h = ?h"
    by (simp add: at_tail_def splice_from_def)
  show "cursorStateHistory (onStateUpdate s st) = drop (length ?h + 1 - 50) (?h @ [s])"
  proof (cases "length ?h = 50")
    case True
    then show ?thesis
      by (simp add: onStateUpdate_def Let_def sp shift_drop push_def STACK_SIZE_LIMIT_def)
  next
    case False
    with assms have "length ?h < 50" by (simp add: at_tail_def)
    then show ?thesis
      by (simp add: onStateUpdate_def Let_def sp push_def STACK_SIZE_LIMIT_def)
  qed
  from assms show "at_tail (onStateUpdate s st)"
    by (auto simp: at_tail_def onStateUpdate_def Let_def splice_from_length shift_drop push_def
        STACK_SIZE_LIMIT_def)
qed

lemma run_records_at_tail:
  "at_tail st \<Longrightarrow>
     cursorStateHistory (run (map Record xs) st) =
       drop (length (cursorStateHistory st) + length xs - 50) (cursorStateHistory st @ xs) \<and>
     at_tail (run (map Record xs) st)"
proof (induction xs arbitrary: st)
  case Nil
  then show ?case by (simp add: at_tail_def)
next
  case (Cons x xs)
  let ?h = "cursorStateHistory st"
  let ?st' = "onStateUpdate x st"
  have tail': "at_tail ?st'" and h': "cursorStateHistory ?st' = drop (length ?h + 1 - 50) (?h @ [x])"
    using onStateUpdate_at_tail [OF Cons.prems] by simp_all
  have len: "length ?h \<le> 50" using Cons.prems by (simp add: at_tail_def)
  have "drop (length (cursorStateHistory ?st') + length xs - 50) (cursorStateHistory ?st' @ xs) =
        drop (length ?h + length (x # xs) - 50) (?h @ x # xs)"
  proof (cases "length ?h < 50")
    case True
    then show ?thesis by (simp add: h')
  next
    case False
    with len have l50: "length ?h = 50" by simp
    have "drop (length (cursorStateHistory ?st') + length xs - 50) (cursorStateHistory ?st' @ xs) =
          drop (length xs) (drop 1 (?h @ x # xs))"
      by (simp add: h' l50)
    also have "\<dots> = drop (length ?h + length (x # xs) - 50) (?h @ x # xs)"
      by (simp only: drop_drop) (simp add: l50)
    finally show ?thesis .
  qed
  with Cons.IH [OF tail'] show ?case by simp
qed

lemma undo_calls_at_zero:
  "positionInHistory st = 0 \<Longrightarrow> undo_calls k st = (replicate k Null, st)"
  by (induction k) (simp_all add: undo_def)

lemma undo_calls_results:
  "position_valid st \<Longrightarrow> nat (positionInHistory st) = p \<Longrightarrow>
     fst (undo_calls (p + k) st) =
       map Object (rev (take p (cursorStateHistory st))) @ replicate k Null"
proof (induction p arbitrary: st)
  case 0
  then have "positionInHistory st = 0" by (simp add: position_valid_def)
  then show ?case by (simp add: undo_calls_at_zero)
next
  case (Suc p)
  let ?st' = "st\<lparr>positionInHistory := positionInHistory st - 1\<rparr>"
  from Suc.prems have pos: "positionInHistory st = int p + 1"
    and lt: "p < length (cursorStateHistory st)"
    by (auto simp: position_valid_def)
  then have u: "undo st = (Object (cursorStateHistory st ! p), ?st')"
    by (simp add: undo_def getCurrentState_def array_get_def Let_def)
  have "position_valid ?st'" "nat (positionInHistory ?st') = p"
    using pos lt by (simp_all add: position_valid_def)
  from Suc.IH [OF this]
  have "fst (undo_calls (p + k) ?st') =
          map Object (rev (take p (cursorStateHistory st))) @ replicate k Null"
    by simp
  with u lt show ?case
    by (simp add: take_Suc_conv_app_nth case_prod_beta)
qed

lemma non_null_prefix:
  "length (takeWhile (\<lambda>r. r \<noteq> Null) (map Object ys @ replicate (Suc k) Null)) = length ys"
  by (induction ys) simp_all

subsection \<open>The controller\<close>

lemma notifications_ignored:
  "isChangingState c \<Longrightarrow> (onDidChangeCursorSelection ^^ n) c = c"
  by (induction n) (simp_all add: onDidChangeCursorSelection_def)

lemma setSelections_while_changing:
  "isChangingState c \<Longrightarrow> setSelections n sels c = c\<lparr>editor := Some sels\<rparr>"
  by (simp add: setSelections_def notifications_ignored)

lemma updateCursorState_stack:
  "cursorStateStack (state_of (updateCursorState n newState c)) = cursorStateStack c"
  by (cases newState) (simp_all add: updateCursorState_def Let_def setSelections_while_changing)

lemma undo_history: "cursorStateHistory (snd (undo st)) = cursorStateHistory st"
  by (simp add: undo_def Let_def)

lemma redo_history: "cursorStateHistory (snd (redo st)) = cursorStateHistory st"
  by (simp add: redo_def Let_def)

lemma content_change_clears_history:
  "undo (cursorStateStack (onDidChangeModelContent c)) =
     (Null, cursorStateStack (onDidChangeModelContent c)) \<and>
   redo (cursorStateStack (onDidChangeModelContent c)) =
     (Null, cursorStateStack (onDidChangeModelContent c))"
  by (simp add: onDidChangeModelContent_def Let_def undo_def redo_def reset_def)

section \<open>The claims\<close>

text \<open>
  Claim C1. On every stack whose position pointer is an index of the history (which
  holds in every state the class can reach) and for every snapshot, \<^verbatim>\<open>onStateUpdate\<close>
  does exactly the three steps of \<^verbatim>\<open>record\<close>: the entries after the position are
  deleted when the position is not the last index, the snapshot is appended and the
  position becomes the new last index, and when more than 50 entries are held the entry
  at index 0 is removed and the position decremented.
\<close>

theorem onStateUpdate_record_spec:
  "position_valid st \<Longrightarrow> onStateUpdate s st = record_spec s st"
  by (auto simp: onStateUpdate_def record_spec_def position_valid_def Let_def splice_from_valid
      shift_drop push_def STACK_SIZE_LIMIT_def min_def)

theorem onStateUpdate_record_spec_witness:
  "position_valid \<lparr>cursorStateHistory = [\<lparr>selections = [1::nat]\<rparr>, \<lparr>selections = [2]\<rparr>, \<lparr>selections = [3]\<rparr>],
                   positionInHistory = 0\<rparr> \<and>
   onStateUpdate \<lparr>selections = [4]\<rparr>
     \<lparr>cursorStateHistory = [\<lparr>selections = [1::nat]\<rparr>, \<lparr>selections = [2]\<rparr>, \<lparr>selections = [3]\<rparr>],
      positionInHistory = 0\<rparr> =
     \<lparr>cursorStateHistory = [\<lparr>selections = [1]\<rparr>, \<lparr>selections = [4]\<rparr>], positionInHistory = 1\<rparr>"
  using onStateUpdate_record_spec
    [of "\<lparr>cursorStateHistory = [\<lparr>selections = [1::nat]\<rparr>, \<lparr>selections = [2]\<rparr>, \<lparr>selections = [3]\<rparr>],
          positionInHistory = 0\<rparr>" "\<lparr>selections = [4]\<rparr>"]
  by (simp add: position_valid_def record_spec_def)

text \<open>
  Claim C2. \<^verbatim>\<open>undo()\<close> returns \<^verbatim>\<open>null\<close> and changes nothing when the position pointer
  is 0; on every other stack whose pointer is an index of the history it decrements the
  pointer by one and returns the snapshot stored at the new position.
\<close>

theorem undo_spec:
  "(positionInHistory st = 0 \<longrightarrow> undo st = (Null, st)) \<and>
   (positionInHistory st \<noteq> 0 \<and> position_valid st \<longrightarrow>
      undo st = (Object (cursorStateHistory st ! nat (positionInHistory st - 1)),
                 st\<lparr>positionInHistory := positionInHistory st - 1\<rparr>))"
  by (simp add: undo_def getCurrentState_def position_valid_def array_get_def)

theorem undo_spec_witness:
  "position_valid \<lparr>cursorStateHistory = [\<lparr>selections = [1::nat]\<rparr>, \<lparr>selections = [2]\<rparr>],
                   positionInHistory = 1\<rparr> \<and>
   undo \<lparr>cursorStateHistory = [\<lparr>selections = [1::nat]\<rparr>, \<lparr>selections = [2]\<rparr>],
         positionInHistory = 1\<rparr> =
     (Object \<lparr>selections = [1]\<rparr>,
      \<lparr>cursorStateHistory = [\<lparr>selections = [1]\<rparr>, \<lparr>selections = [2]\<rparr>],
       positionInHistory = 0\<rparr>) \<and>
   undo \<lparr>cursorStateHistory = [\<lparr>selections = [1::nat]\<rparr>], positionInHistory = 0\<rparr> =
     (Null, \<lparr>cursorStateHistory = [\<lparr>selections = [1]\<rparr>], positionInHistory = 0\<rparr>)"
  using undo_spec [of "\<lparr>cursorStateHistory = [\<lparr>selections = [1::nat]\<rparr>, \<lparr>selections = [2]\<rparr>],
                         positionInHistory = 1\<rparr>"]
        undo_spec [of "\<lparr>cursorStateHistory = [\<lparr>selections = [1::nat]\<rparr>], positionInHistory = 0\<rparr>"]
  by (simp add: position_valid_def)

text \<open>
  Claim C3. \<^verbatim>\<open>redo()\<close> returns \<^verbatim>\<open>null\<close> and changes nothing when the position pointer
  is the last index of the history; on every other stack whose pointer is an index of
  the history it increments the pointer by one and returns the snapshot stored at the
  new position.
\<close>

theorem redo_spec:
  "(positionInHistory st = int (length (cursorStateHistory st)) - 1 \<longrightarrow> redo st = (Null, st)) \<and>
   (positionInHistory st \<noteq> int (length (cursorStateHistory st)) - 1 \<and> position_valid st \<longrightarrow>
      redo st = (Object (cursorStateHistory st ! nat (positionInHistory st + 1)),
                 st\<lparr>positionInHistory := positionInHistory st + 1\<rparr>))"
  by (simp add: redo_def getCurrentState_def position_valid_def array_get_def)

theorem redo_spec_witness:
  "position_valid \<lparr>cursorStateHistory = [\<lparr>selections = [1::nat]\<rparr>, \<lparr>selections = [2]\<rparr>],
                   positionInHistory = 0\<rparr> \<and>
   redo \<lparr>cursorStateHistory = [\<lparr>selections = [1::nat]\<rparr>, \<lparr>selections = [2]\<rparr>],
         positionInHistory = 0\<rparr> =
     (Object \<lparr>selections = [2]\<rparr>,
      \<lparr>cursorStateHistory = [\<lparr>selections = [1]\<rparr>, \<lparr>selections = [2]\<rparr>],
       positionInHistory = 1\<rparr>) \<and>
   redo \<lparr>cursorStateHistory = [\<lparr>selections = [1::nat]\<rparr>, \<lparr>selections = [2]\<rparr>],
         positionInHistory = 1\<rparr> =
     (Null, \<lparr>cursorStateHistory = [\<lparr>selections = [1]\<rparr>, \<lparr>selections = [2]\<rparr>],
             positionInHistory = 1\<rparr>)"
  using redo_spec [of "\<lparr>cursorStateHistory = [\<lparr>selections = [1::nat]\<rparr>, \<lparr>selections = [2]\<rparr>],
                         positionInHistory = 0\<rparr>"]
        redo_spec [of "\<lparr>cursorStateHistory = [\<lparr>selections = [1::nat]\<rparr>, \<lparr>selections = [2]\<rparr>],
                         positionInHistory = 1\<rparr>"]
  by (simp add: position_valid_def)

text \<open>
  Claim C4. When \<^verbatim>\<open>undo()\<close> has moved the position pointer back (it returned a
  snapshot), recording any snapshot \<open>s2\<close> discards the redo branch: the history is the
  entries before the old position followed by \<open>s2\<close>, and the following \<^verbatim>\<open>redo()\<close>
  returns \<^verbatim>\<open>null\<close> and changes nothing.
\<close>

theorem record_discards_redo_branch:
  assumes "stack_inv st0" and "fst (undo st0) \<noteq> Null"
  shows "cursorStateHistory (onStateUpdate s2 (snd (undo st0))) =
           take (nat (positionInHistory st0)) (cursorStateHistory st0) @ [s2] \<and>
         redo (onStateUpdate s2 (snd (undo st0))) = (Null, onStateUpdate s2 (snd (undo st0)))"
proof -
  from assms(2) have nz: "positionInHistory st0 \<noteq> 0"
    by (auto simp: undo_def)
  let ?st = "snd (undo st0)"
  from nz have st: "?st = st0\<lparr>positionInHistory := positionInHistory st0 - 1\<rparr>"
    by (simp add: undo_def Let_def)
  from assms(1) nz have valid: "position_valid ?st"
    by (auto simp: st stack_inv_def position_valid_def)
  from assms(1) nz have small: "nat (positionInHistory ?st) + 1 < 50"
    by (auto simp: st stack_inv_def position_valid_def STACK_SIZE_LIMIT_def)
  from assms(1) nz have idx: "nat (positionInHistory ?st) + 1 = nat (positionInHistory st0)"
    by (auto simp: st stack_inv_def position_valid_def)
  have "cursorStateHistory (onStateUpdate s2 ?st) =
          take (nat (positionInHistory ?st) + 1) (cursorStateHistory ?st) @ [s2]"
    using onStateUpdate_valid(1) [OF valid, of s2] small by simp
  then have "cursorStateHistory (onStateUpdate s2 ?st) =
          take (nat (positionInHistory st0)) (cursorStateHistory st0) @ [s2]"
    by (simp only: idx) (simp add: st)
  with redo_after_record [OF valid] show ?thesis by simp
qed

theorem record_discards_redo_branch_witness:
  "stack_inv \<lparr>cursorStateHistory = [\<lparr>selections = [1::nat]\<rparr>, \<lparr>selections = [2]\<rparr>],
              positionInHistory = 1\<rparr> \<and>
   fst (undo \<lparr>cursorStateHistory = [\<lparr>selections = [1::nat]\<rparr>, \<lparr>selections = [2]\<rparr>],
              positionInHistory = 1\<rparr>) \<noteq> Null \<and>
   cursorStateHistory (onStateUpdate \<lparr>selections = [3]\<rparr>
      (snd (undo \<lparr>cursorStateHistory = [\<lparr>selections = [1::nat]\<rparr>, \<lparr>selections = [2]\<rparr>],
                  positionInHistory = 1\<rparr>))) = [\<lparr>selections = [1]\<rparr>, \<lparr>selections = [3]\<rparr>] \<and>
   fst (redo (onStateUpdate \<lparr>selections = [3]\<rparr>
      (snd (undo \<lparr>cursorStateHistory = [\<lparr>selections = [1::nat]\<rparr>, \<lparr>selections = [2]\<rparr>],
                  positionInHistory = 1\<rparr>)))) = Null"
  using record_discards_redo_branch
    [of "\<lparr>cursorStateHistory = [\<lparr>selections = [1::nat]\<rparr>, \<lparr>selections = [2]\<rparr>],
          positionInHistory = 1\<rparr>" "\<lparr>selections = [3]\<rparr>"]
  by (simp add: stack_inv_def position_valid_def STACK_SIZE_LIMIT_def undo_def
      getCurrentState_def array_get_def)

text \<open>
  Claim C5. After every operation of every sequence of \<^verbatim>\<open>reset\<close>, \<^verbatim>\<open>record\<close>,
  \<^verbatim>\<open>undo\<close> and \<^verbatim>\<open>redo\<close> calls, started from a constructed stack or from a reset of
  any stack, the history is not empty, holds at most 50 entries, and the position
  pointer is an index of it. (\<open>take k ops\<close> is the sequence up to its \<open>k\<close>-th operation.)
\<close>

theorem history_invariant:
  "(let S = run (take k ops) (new_CursorStateStack s0)
    in cursorStateHistory S \<noteq> [] \<and> length (cursorStateHistory S) \<le> 50 \<and>
       0 \<le> positionInHistory S \<and> positionInHistory S < int (length (cursorStateHistory S))) \<and>
   (let S = run (take k ops) (reset s st)
    in cursorStateHistory S \<noteq> [] \<and> length (cursorStateHistory S) \<le> 50 \<and>
       0 \<le> positionInHistory S \<and> positionInHistory S < int (length (cursorStateHistory S)))"
proof -
  have "stack_inv (run (take k ops) (new_CursorStateStack s0))"
    by (simp add: stack_inv_run stack_inv_reset new_CursorStateStack_def)
  moreover have "stack_inv (run (take k ops) (reset s st))"
    by (simp add: stack_inv_run stack_inv_reset)
  ultimately show ?thesis
    by (simp add: stack_inv_def position_valid_def STACK_SIZE_LIMIT_def Let_def)
qed

text \<open>
  Claim C6. Starting from any stack, after \<^verbatim>\<open>reset(s)\<close> and \<^verbatim>\<open>record(s1)\<close> the call
  \<^verbatim>\<open>undo()\<close> returns \<open>s\<close> and the \<^verbatim>\<open>redo()\<close> after it returns \<open>s1\<close>.
\<close>

theorem round_trip:
  "fst (undo (onStateUpdate s1 (reset s st))) = Object s \<and>
   fst (redo (snd (undo (onStateUpdate s1 (reset s st))))) = Object s1"
  by (simp add: undo_def redo_def onStateUpdate_def reset_def getCurrentState_def array_get_def
      splice_from_def push_def STACK_SIZE_LIMIT_def Let_def)

text \<open>
  Claim C7. After a reset and 60 calls of \<^verbatim>\<open>record\<close> (with any snapshots \<open>xs\<close>, distinct
  or not), repeated calls of \<^verbatim>\<open>undo()\<close> return 49 snapshots, the recorded ones from the
  59th back to the 11th, and \<^verbatim>\<open>null\<close> from then on: at most 49 results differ from
  \<^verbatim>\<open>null\<close> before the first \<^verbatim>\<open>null\<close>.
\<close>

theorem sixty_records_then_undo:
  assumes "length xs = 60"
  shows "fst (undo_calls (49 + k) (run (map Record xs) (reset s st))) =
           map Object (rev (take 49 (drop 10 xs))) @ replicate k Null \<and>
         length (takeWhile (\<lambda>r. r \<noteq> Null)
           (fst (undo_calls (49 + Suc k) (run (map Record xs) (reset s st))))) = 49"
proof -
  let ?S = "run (map Record xs) (reset s st)"
  have "at_tail (reset s st)" by (simp add: at_tail_def reset_def)
  from run_records_at_tail [OF this, of xs] assms
  have h: "cursorStateHistory ?S = drop 10 xs" and t: "at_tail ?S"
    by (simp_all add: reset_def)
  from h t assms have v: "position_valid ?S" and p: "nat (positionInHistory ?S) = 49"
    by (simp_all add: at_tail_def position_valid_def)
  have results: "fst (undo_calls (49 + j) ?S) =
      map Object (rev (take 49 (drop 10 xs))) @ replicate j Null" for j
    using undo_calls_results [OF v p, of j] h by simp
  have "length (takeWhile (\<lambda>r. r \<noteq> Null) (fst (undo_calls (49 + Suc k) ?S))) =
        length (rev (take 49 (drop 10 xs)))"
    by (simp only: results non_null_prefix)
  also have "\<dots> = 49" using assms by simp
  finally show ?thesis using results [of k] by simp
qed

theorem sixty_records_then_undo_witness:
  "length (map (\<lambda>i. \<lparr>selections = [i]\<rparr>) [1..<61::nat]) = 60 \<and>
   fst (undo_calls (49 + 1) (run (map Record (map (\<lambda>i. \<lparr>selections = [i]\<rparr>) [1..<61::nat]))
          (reset \<lparr>selections = [0]\<rparr> \<lparr>cursorStateHistory = [], positionInHistory = 0\<rparr>))) =
     map Object (rev (take 49 (drop 10 (map (\<lambda>i. \<lparr>selections = [i]\<rparr>) [1..<61::nat])))) @ replicate 1 Null"
  using sixty_records_then_undo [of "map (\<lambda>i. \<lparr>selections = [i]\<rparr>) [1..<61::nat]" 1
      "\<lparr>selections = [0]\<rparr>" "\<lparr>cursorStateHistory = [], positionInHistory = 0\<rparr>"]
  by simp

text \<open>
  Claim C8. Reaching the end of the history is the only case in which no snapshot is
  returned, and it is reported by \<^verbatim>\<open>null\<close>, never by an error: \<^verbatim>\<open>undo()\<close> returns
  \<^verbatim>\<open>null\<close> exactly when the position pointer is 0 and \<^verbatim>\<open>redo()\<close> exactly when it is
  the last index; on a freshly reset history both return \<^verbatim>\<open>null\<close>; whenever one of
  them returns \<^verbatim>\<open>null\<close> the stack is unchanged and the same call returns \<^verbatim>\<open>null\<close>
  again; and on a stack that satisfies the invariant neither returns \<^verbatim>\<open>undefined\<close>, so
  every result is \<^verbatim>\<open>null\<close> or a snapshot.
\<close>

theorem boundary_is_silent:
  "undo (reset s st) = (Null, reset s st) \<and>
   redo (reset s st) = (Null, reset s st) \<and>
   (fst (undo st) = Null \<longleftrightarrow> positionInHistory st = 0) \<and>
   (fst (redo st) = Null \<longleftrightarrow>
      positionInHistory st = int (length (cursorStateHistory st)) - 1) \<and>
   (fst (undo st) = Null \<longrightarrow> snd (undo st) = st \<and> undo (snd (undo st)) = (Null, st)) \<and>
   (fst (redo st) = Null \<longrightarrow> snd (redo st) = st \<and> redo (snd (redo st)) = (Null, st)) \<and>
   (stack_inv st \<longrightarrow> fst (undo st) \<noteq> Undefined \<and> fst (redo st) \<noteq> Undefined)"
proof -
  have "undo (reset s st) = (Null, reset s st)" "redo (reset s st) = (Null, reset s st)"
    by (simp_all add: undo_def redo_def reset_def)
  moreover have "fst (undo st) = Null \<longleftrightarrow> positionInHistory st = 0"
    by (rule undo_Null_iff)
  moreover have "fst (redo st) = Null \<longleftrightarrow>
      positionInHistory st = int (length (cursorStateHistory st)) - 1"
    by (rule redo_Null_iff)
  moreover have "fst (undo st) = Null \<longrightarrow> snd (undo st) = st \<and> undo (snd (undo st)) = (Null, st)"
    by (simp add: undo_Null_iff) (simp add: undo_def)
  moreover have "fst (redo st) = Null \<longrightarrow> snd (redo st) = st \<and> redo (snd (redo st)) = (Null, st)"
    by (simp add: redo_Null_iff) (simp add: redo_def)
  moreover have "stack_inv st \<longrightarrow> fst (undo st) \<noteq> Undefined \<and> fst (redo st) \<noteq> Undefined"
    by (simp add: stack_inv_def undo_defined redo_defined)
  ultimately show ?thesis by blast
qed

theorem boundary_is_silent_witness:
  "stack_inv \<lparr>cursorStateHistory = [\<lparr>selections = [1::nat]\<rparr>], positionInHistory = 0\<rparr> \<and>
   fst (undo \<lparr>cursorStateHistory = [\<lparr>selections = [1::nat]\<rparr>], positionInHistory = 0\<rparr>) = Null \<and>
   fst (redo \<lparr>cursorStateHistory = [\<lparr>selections = [1::nat]\<rparr>], positionInHistory = 0\<rparr>) = Null \<and>
   snd (undo \<lparr>cursorStateHistory = [\<lparr>selections = [1::nat]\<rparr>], positionInHistory = 0\<rparr>) =
     \<lparr>cursorStateHistory = [\<lparr>selections = [1]\<rparr>], positionInHistory = 0\<rparr> \<and>
   snd (redo \<lparr>cursorStateHistory = [\<lparr>selections = [1::nat]\<rparr>], positionInHistory = 0\<rparr>) =
     \<lparr>cursorStateHistory = [\<lparr>selections = [1]\<rparr>], positionInHistory = 0\<rparr> \<and>
   stack_inv \<lparr>cursorStateHistory = [\<lparr>selections = [1::nat]\<rparr>, \<lparr>selections = [2]\<rparr>, \<lparr>selections = [3]\<rparr>],
              positionInHistory = 1\<rparr> \<and>
   fst (undo \<lparr>cursorStateHistory = [\<lparr>selections = [1::nat]\<rparr>, \<lparr>selections = [2]\<rparr>, \<lparr>selections = [3]\<rparr>],
              positionInHistory = 1\<rparr>) \<noteq> Null \<and>
   fst (redo \<lparr>cursorStateHistory = [\<lparr>selections = [1::nat]\<rparr>, \<lparr>selections = [2]\<rparr>, \<lparr>selections = [3]\<rparr>],
              positionInHistory = 1\<rparr>) \<noteq> Null \<and>
   fst (undo \<lparr>cursorStateHistory = [\<lparr>selections = [1::nat]\<rparr>, \<lparr>selections = [2]\<rparr>, \<lparr>selections = [3]\<rparr>],
              positionInHistory = 1\<rparr>) \<noteq> Undefined \<and>
   fst (redo \<lparr>cursorStateHistory = [\<lparr>selections = [1::nat]\<rparr>, \<lparr>selections = [2]\<rparr>, \<lparr>selections = [3]\<rparr>],
              positionInHistory = 1\<rparr>) \<noteq> Undefined"
  using boundary_is_silent
    [of "\<lparr>selections = [1::nat]\<rparr>"
        "\<lparr>cursorStateHistory = [\<lparr>selections = [1::nat]\<rparr>], positionInHistory = 0\<rparr>"]
    boundary_is_silent
    [of "\<lparr>selections = [1::nat]\<rparr>"
        "\<lparr>cursorStateHistory = [\<lparr>selections = [1::nat]\<rparr>, \<lparr>selections = [2]\<rparr>, \<lparr>selections = [3]\<rparr>],
          positionInHistory = 1\<rparr>"]
  by (simp add: stack_inv_def position_valid_def STACK_SIZE_LIMIT_def reset_def)

text \<open>
  Claim C9. While the in-progress flag is set the selection handler changes nothing,
  so the notification is not forwarded to \<^verbatim>\<open>onStateUpdate\<close> (which it is when the flag
  is clear). Hence, however many notifications the editor delivers during the write of
  \<^verbatim>\<open>cursorUndo\<close> or \<^verbatim>\<open>cursorRedo\<close>, the stack they leave is the one \<^verbatim>\<open>undo()\<close> or
  \<^verbatim>\<open>redo()\<close> left, and the history holds the entries it held before.
\<close>

theorem applying_state_guard:
  "(isChangingState c \<longrightarrow> onDidChangeCursorSelection c = c) \<and>
   (\<not> isChangingState c \<longrightarrow>
      cursorStateStack (onDidChangeCursorSelection c) =
        onStateUpdate (readState c) (cursorStateStack c)) \<and>
   cursorStateStack (state_of (cursorUndo n c)) = snd (undo (cursorStateStack c)) \<and>
   cursorStateStack (state_of (cursorRedo n c)) = snd (redo (cursorStateStack c)) \<and>
   cursorStateHistory (cursorStateStack (state_of (cursorUndo n c))) =
     cursorStateHistory (cursorStateStack c) \<and>
   cursorStateHistory (cursorStateStack (state_of (cursorRedo n c))) =
     cursorStateHistory (cursorStateStack c)"
proof -
  have u: "cursorStateStack (state_of (cursorUndo n c)) = snd (undo (cursorStateStack c))"
    by (simp add: cursorUndo_def case_prod_beta updateCursorState_stack)
  have r: "cursorStateStack (state_of (cursorRedo n c)) = snd (redo (cursorStateStack c))"
    by (simp add: cursorRedo_def case_prod_beta updateCursorState_stack)
  show ?thesis
    by (simp add: u r undo_history redo_history) (simp add: onDidChangeCursorSelection_def)
qed

theorem applying_state_guard_witness:
  "isChangingState \<lparr>editor = Some [2::nat], isChangingState = True,
      cursorStateStack = \<lparr>cursorStateHistory = [\<lparr>selections = [1]\<rparr>], positionInHistory = 0\<rparr>\<rparr> \<and>
   onDidChangeCursorSelection \<lparr>editor = Some [2::nat], isChangingState = True,
      cursorStateStack = \<lparr>cursorStateHistory = [\<lparr>selections = [1]\<rparr>], positionInHistory = 0\<rparr>\<rparr> =
     \<lparr>editor = Some [2], isChangingState = True,
      cursorStateStack = \<lparr>cursorStateHistory = [\<lparr>selections = [1]\<rparr>], positionInHistory = 0\<rparr>\<rparr> \<and>
   \<not> isChangingState \<lparr>editor = Some [2::nat], isChangingState = False,
      cursorStateStack = \<lparr>cursorStateHistory = [\<lparr>selections = [1]\<rparr>], positionInHistory = 0\<rparr>\<rparr> \<and>
   cursorStateStack (onDidChangeCursorSelection \<lparr>editor = Some [2::nat], isChangingState = False,
      cursorStateStack = \<lparr>cursorStateHistory = [\<lparr>selections = [1]\<rparr>], positionInHistory = 0\<rparr>\<rparr>) =
     onStateUpdate \<lparr>selections = [2]\<rparr>
       \<lparr>cursorStateHistory = [\<lparr>selections = [1]\<rparr>], positionInHistory = 0\<rparr> \<and>
   cursorStateStack (state_of (cursorUndo 3 \<lparr>editor = Some [2::nat], isChangingState = False,
      cursorStateStack = \<lparr>cursorStateHistory = [\<lparr>selections = [1]\<rparr>, \<lparr>selections = [2]\<rparr>],
                          positionInHistory = 1\<rparr>\<rparr>)) =
     \<lparr>cursorStateHistory = [\<lparr>selections = [1]\<rparr>, \<lparr>selections = [2]\<rparr>], positionInHistory = 0\<rparr>"
  using applying_state_guard
    [of "\<lparr>editor = Some [2::nat], isChangingState = False,
          cursorStateStack = \<lparr>cursorStateHistory = [\<lparr>selections = [1]\<rparr>, \<lparr>selections = [2]\<rparr>],
                              positionInHistory = 1\<rparr>\<rparr>" 3]
    applying_state_guard
    [of "\<lparr>editor = Some [2::nat], isChangingState = True,
          cursorStateStack = \<lparr>cursorStateHistory = [\<lparr>selections = [1]\<rparr>], positionInHistory = 0\<rparr>\<rparr>" 0]
    applying_state_guard
    [of "\<lparr>editor = Some [2::nat], isChangingState = False,
          cursorStateStack = \<lparr>cursorStateHistory = [\<lparr>selections = [1]\<rparr>], positionInHistory = 0\<rparr>\<rparr>" 0]
  by (simp add: readState_def undo_def Let_def)

text \<open>
  Claim C10. In the three earlier versions \<^verbatim>\<open>redo\<close> returns \<^verbatim>\<open>null\<close> for every stack
  and leaves it unchanged, and \<^verbatim>\<open>cursorRedo\<close> leaves the whole controller unchanged.
\<close>

theorem redo_unimplemented:
  "redo_cmp currState st = (None, st) \<and> redo_p0 st = (None, st) \<and> redo_list stl = (None, stl) \<and>
   cursorRedo_cmp n c = c \<and> cursorRedo_p0 n c = c \<and> cursorRedo_list n cl = cl"
  by (simp add: redo_cmp_def redo_p0_def redo_list_def cursorRedo_cmp_def cursorRedo_p0_def
      cursorRedo_list_def updateCursorState_cmp_def updateCursorState_p0_def
      updateCursorState_list_def split: option.splits)

end
